theory Spec2Isabelle
  imports Main "HOL-Library.Signed_Division"
begin

section \<open>The underlying integer type\<close>

text \<open>
  \<^verbatim>\<open>safe_int<I>\<close> is a template over a signed integer type \<open>I\<close>. An instantiation is
  described by two numbers: the width of \<open>I\<close> in bits, and the width of the type in which
  C++ evaluates the arithmetic operators on operands of type \<open>I\<close>. By the integral promotions
  this is \<open>int\<close> when \<open>I\<close> is narrower than \<open>int\<close>, and \<open>I\<close> itself otherwise, so
  \<open>arith_bits\<close> is the larger of \<open>bits\<close> and the width of \<open>int\<close>.
\<close>

record int_type =
  bits :: nat
  arith_bits :: nat

definition well_formed :: "int_type \<Rightarrow> bool" where
  "well_formed T \<longleftrightarrow> 2 \<le> bits T \<and> bits T \<le> arith_bits T"

text \<open>\<^verbatim>\<open>static constexpr I max = std::numeric_limits<I>::max();\<close> and \<open>min\<close> likewise.\<close>

definition max_I :: "int_type \<Rightarrow> int" where
  "max_I T = 2 ^ (bits T - 1) - 1"

definition min_I :: "int_type \<Rightarrow> int" where
  "min_I T = - (2 ^ (bits T - 1))"

text \<open>The values an object of type \<open>I\<close> can hold.\<close>

definition in_range :: "int_type \<Rightarrow> int \<Rightarrow> bool" where
  "in_range T x \<longleftrightarrow> min_I T \<le> x \<and> x \<le> max_I T"

text \<open>The values the type of an arithmetic expression can hold.\<close>

definition arith_ok :: "int_type \<Rightarrow> int \<Rightarrow> bool" where
  "arith_ok T x \<longleftrightarrow> - (2 ^ (arith_bits T - 1)) \<le> x \<and> x < 2 ^ (arith_bits T - 1)"

text \<open>
  An arithmetic operator whose exact result is \<open>x\<close>: the result is \<open>x\<close> when the type of
  the expression can hold it; otherwise the behaviour of the program is undefined
  (signed overflow), which is the value \<open>None\<close>.
\<close>

definition arith :: "int_type \<Rightarrow> int \<Rightarrow> int option" where
  "arith T x = (if arith_ok T x then Some x else None)"

text \<open>
  \<open>a / b\<close> and \<open>a % b\<close> truncate towards zero. Both are undefined when \<open>b\<close> is zero and
  when the quotient is not representable in the type of the expression.
\<close>

definition arith_div :: "int_type \<Rightarrow> int \<Rightarrow> int \<Rightarrow> int option" where
  "arith_div T a b = (if b = 0 then None else arith T (a sdiv b))"

definition arith_mod :: "int_type \<Rightarrow> int \<Rightarrow> int \<Rightarrow> int option" where
  "arith_mod T a b = (if b = 0 \<or> \<not> arith_ok T (a sdiv b) then None else Some (a smod b))"

text \<open>
  Conversion of a value of the arithmetic type (or of any other integer type) to \<open>I\<close>:
  the unique value of \<open>I\<close> congruent to it modulo \<open>2 ^ bits\<close> (the rule of C++20, and
  what the implementations defined before it).
\<close>

definition to_I :: "int_type \<Rightarrow> int \<Rightarrow> int" where
  "to_I T x = (x + 2 ^ (bits T - 1)) mod 2 ^ bits T - 2 ^ (bits T - 1)"

section \<open>The class\<close>

text \<open>The exceptions thrown: \<open>std::overflow_error\<close>, \<open>std::underflow_error\<close>, \<open>std::domain_error\<close>.\<close>

datatype error = Overflow | Underflow | DomainError

record safe_int =
  val :: int

text \<open>
  The outcome of a call of a member function on a receiver \<open>s\<close>:
  \<^item> \<open>Returns r s'\<close>: the call returns; \<open>r\<close> is the \<open>safe_int\<close> it yields (for a function
    returning \<^verbatim>\<open>safe_int&\<close>, the receiver after the call) and \<open>s'\<close> the receiver after the call;
  \<^item> \<open>Throws e s'\<close>: the call throws \<open>e\<close>, leaving the receiver as \<open>s'\<close>;
  \<^item> \<open>Undefined\<close>: the call evaluates an expression whose behaviour is undefined.
\<close>

datatype outcome = Returns safe_int safe_int | Throws error safe_int | Undefined

text \<open>\<^verbatim>\<open>safe_int(I i) : val { i } { }\<close>\<close>

definition safe_int_ctor :: "int \<Rightarrow> safe_int" where
  "safe_int_ctor i = \<lparr>val = i\<rparr>"

text \<open>\<^verbatim>\<open>I value() const noexcept { return val; }\<close>\<close>

definition value_of :: "safe_int \<Rightarrow> int" where
  "value_of s = val s"

text \<open>
  Construction from a value \<open>n\<close> of another integer type. Both converting constructor
  templates are guarded by \<^verbatim>\<open>std::is_assignable<N, I>\<close>, which is false for every integer
  type \<open>N\<close>, so the call selects \<^verbatim>\<open>safe_int(I i)\<close> and \<open>n\<close> is converted to \<open>I\<close> on the way
  in. No constructor has a statement that tests the range or throws. For the same reason
  no constructor accepts a \<open>safe_int\<close> over another integer type: such a construction does
  not compile, and there is nothing to model for it.
\<close>

definition safe_int_from :: "int_type \<Rightarrow> int \<Rightarrow> error + safe_int" where
  "safe_int_from T n = Inr (safe_int_ctor (to_I T n))"

text \<open>
  \<^verbatim>\<open>val = e; return *this;\<close> where \<open>e\<close> is the value of an arithmetic expression:
  the value is converted to \<open>I\<close> and stored, and the receiver is returned.
\<close>

definition store :: "int_type \<Rightarrow> safe_int \<Rightarrow> int option \<Rightarrow> outcome" where
  "store T s e =
     (case e of
        None \<Rightarrow> Undefined
      | Some x \<Rightarrow> Returns (s\<lparr>val := to_I T x\<rparr>) (s\<lparr>val := to_I T x\<rparr>))"

text \<open>\<^verbatim>\<open>safe_int& operator=(I v) { val = v; return *this; }\<close>\<close>

definition op_assign :: "int_type \<Rightarrow> safe_int \<Rightarrow> int \<Rightarrow> outcome" where
  "op_assign T s v = Returns (s\<lparr>val := v\<rparr>) (s\<lparr>val := v\<rparr>)"

subsection \<open>Unary operators\<close>

text \<open>\<^verbatim>\<open>safe_int operator+() { return *this; }\<close>\<close>

definition op_plus :: "int_type \<Rightarrow> safe_int \<Rightarrow> outcome" where
  "op_plus T s = Returns s s"

text \<open>
  \<^verbatim>\<open>safe_int operator-() { if(val < -max) throw std::overflow_error(""); return safe_int(-val); }\<close>
\<close>

definition op_neg :: "int_type \<Rightarrow> safe_int \<Rightarrow> outcome" where
  "op_neg T s =
     (if val s < - max_I T then Throws Overflow s
      else (case arith T (- val s) of
              None \<Rightarrow> Undefined
            | Some x \<Rightarrow> Returns (safe_int_ctor (to_I T x)) s))"

text \<open>\<^verbatim>\<open>operator++()\<close>: \<^verbatim>\<open>if(val == max) throw std::overflow_error(""); ++val; return *this;\<close>\<close>

definition op_pre_inc :: "int_type \<Rightarrow> safe_int \<Rightarrow> outcome" where
  "op_pre_inc T s =
     (if val s = max_I T then Throws Overflow s
      else store T s (arith T (val s + 1)))"

text \<open>\<^verbatim>\<open>operator--()\<close>: \<^verbatim>\<open>if(val == min) throw std::underflow_error(""); --val; return *this;\<close>\<close>

definition op_pre_dec :: "int_type \<Rightarrow> safe_int \<Rightarrow> outcome" where
  "op_pre_dec T s =
     (if val s = min_I T then Throws Underflow s
      else store T s (arith T (val s - 1)))"

text \<open>
  \<^verbatim>\<open>operator++(int)\<close>: \<^verbatim>\<open>if(val == max) throw std::overflow_error(""); return safe_int(val++);\<close>
\<close>

definition op_post_inc :: "int_type \<Rightarrow> safe_int \<Rightarrow> outcome" where
  "op_post_inc T s =
     (if val s = max_I T then Throws Overflow s
      else (case arith T (val s + 1) of
              None \<Rightarrow> Undefined
            | Some x \<Rightarrow> Returns (safe_int_ctor (val s)) (s\<lparr>val := to_I T x\<rparr>)))"

text \<open>
  \<^verbatim>\<open>operator--(int)\<close>: \<^verbatim>\<open>if(val == min) throw std::underflow_error(""); return safe_int(val--);\<close>
\<close>

definition op_post_dec :: "int_type \<Rightarrow> safe_int \<Rightarrow> outcome" where
  "op_post_dec T s =
     (if val s = min_I T then Throws Underflow s
      else (case arith T (val s - 1) of
              None \<Rightarrow> Undefined
            | Some x \<Rightarrow> Returns (safe_int_ctor (val s)) (s\<lparr>val := to_I T x\<rparr>)))"

subsection \<open>Compound assignment with a scalar right-hand side\<close>

text \<open>
  \<^verbatim>\<open>operator+=(I rhs)\<close>:
  \<^verbatim>\<open>if( rhs > 0 && val > max - rhs ) throw std::overflow_error("");
  else if( rhs < 0 && val < min - rhs ) throw std::underflow_error("");
  val += rhs; return *this;\<close>
\<close>

definition op_add_assign :: "int_type \<Rightarrow> safe_int \<Rightarrow> int \<Rightarrow> outcome" where
  "op_add_assign T s rhs =
     (if rhs > 0 \<and> val s > max_I T - rhs then Throws Overflow s
      else if rhs < 0 \<and> val s < min_I T - rhs then Throws Underflow s
      else store T s (arith T (val s + rhs)))"

text \<open>
  \<^verbatim>\<open>operator-=(I rhs)\<close>:
  \<^verbatim>\<open>if( val >= 0 && rhs < -max ) throw std::overflow_error("");
  if( rhs < 0 && val > max + rhs ) throw std::overflow_error("");
  else if( rhs > 0 && val < min + rhs ) throw std::underflow_error("");
  val -= rhs; return *this;\<close>
\<close>

definition op_sub_assign :: "int_type \<Rightarrow> safe_int \<Rightarrow> int \<Rightarrow> outcome" where
  "op_sub_assign T s rhs =
     (if val s \<ge> 0 \<and> rhs < - max_I T then Throws Overflow s
      else if rhs < 0 \<and> val s > max_I T + rhs then Throws Overflow s
      else if rhs > 0 \<and> val s < min_I T + rhs then Throws Underflow s
      else store T s (arith T (val s - rhs)))"

text \<open>
  \<^verbatim>\<open>operator*=(I rhs)\<close>:
  \<^verbatim>\<open>if(val > 0) { if(rhs > max / val) throw std::overflow_error(""); }
  else if(val < 0) {
    if((val < -max || rhs < -max) && (val == -1 || rhs == -1)) throw std::overflow_error("");
    else if(rhs > min / val) throw std::underflow_error("");
  }
  val *= rhs; return *this;\<close>

  The quotient \<open>min / val\<close> is evaluated for every negative \<open>val\<close> that passes the first
  test, also for \<open>val = -1\<close>.
\<close>

definition op_mul_assign :: "int_type \<Rightarrow> safe_int \<Rightarrow> int \<Rightarrow> outcome" where
  "op_mul_assign T s rhs =
     (if val s > 0 then
        (case arith_div T (max_I T) (val s) of
           None \<Rightarrow> Undefined
         | Some q \<Rightarrow>
             if rhs > q then Throws Overflow s
             else store T s (arith T (val s * rhs)))
      else if val s < 0 then
        (if (val s < - max_I T \<or> rhs < - max_I T) \<and> (val s = -1 \<or> rhs = -1)
         then Throws Overflow s
         else (case arith_div T (min_I T) (val s) of
                 None \<Rightarrow> Undefined
               | Some q \<Rightarrow>
                   if rhs > q then Throws Underflow s
                   else store T s (arith T (val s * rhs))))
      else store T s (arith T (val s * rhs)))"

text \<open>
  \<^verbatim>\<open>operator/=(I rhs)\<close>:
  \<^verbatim>\<open>if((val < -max || rhs < -max) && (val == -1 || rhs == -1)) throw std::underflow_error("");
  if(rhs == 0) throw std::domain_error("");
  val /= rhs; return *this;\<close>
\<close>

definition op_div_assign :: "int_type \<Rightarrow> safe_int \<Rightarrow> int \<Rightarrow> outcome" where
  "op_div_assign T s rhs =
     (if (val s < - max_I T \<or> rhs < - max_I T) \<and> (val s = -1 \<or> rhs = -1)
      then Throws Underflow s
      else if rhs = 0 then Throws DomainError s
      else store T s (arith_div T (val s) rhs))"

text \<open>
  \<^verbatim>\<open>operator%=(I rhs)\<close>:
  \<^verbatim>\<open>if(rhs == 0) throw std::domain_error(""); val %= rhs; return *this;\<close>
\<close>

definition op_mod_assign :: "int_type \<Rightarrow> safe_int \<Rightarrow> int \<Rightarrow> outcome" where
  "op_mod_assign T s rhs =
     (if rhs = 0 then Throws DomainError s
      else store T s (arith_mod T (val s) rhs))"

subsection \<open>Binary operators with a scalar right-hand side\<close>

text \<open>
  Each is \<^verbatim>\<open>return safe_int(val) op= rhs;\<close>: the compound assignment runs on a temporary
  built from \<open>val\<close>, the temporary is returned, and the receiver is not written. An
  exception of the compound assignment propagates.
\<close>

definition on_copy :: "safe_int \<Rightarrow> (safe_int \<Rightarrow> outcome) \<Rightarrow> outcome" where
  "on_copy s f =
     (case f (safe_int_ctor (val s)) of
        Returns r t \<Rightarrow> Returns r s
      | Throws e t \<Rightarrow> Throws e s
      | Undefined \<Rightarrow> Undefined)"

definition op_add :: "int_type \<Rightarrow> safe_int \<Rightarrow> int \<Rightarrow> outcome" where
  "op_add T s rhs = on_copy s (\<lambda>t. op_add_assign T t rhs)"

definition op_sub :: "int_type \<Rightarrow> safe_int \<Rightarrow> int \<Rightarrow> outcome" where
  "op_sub T s rhs = on_copy s (\<lambda>t. op_sub_assign T t rhs)"

definition op_mul :: "int_type \<Rightarrow> safe_int \<Rightarrow> int \<Rightarrow> outcome" where
  "op_mul T s rhs = on_copy s (\<lambda>t. op_mul_assign T t rhs)"

definition op_div :: "int_type \<Rightarrow> safe_int \<Rightarrow> int \<Rightarrow> outcome" where
  "op_div T s rhs = on_copy s (\<lambda>t. op_div_assign T t rhs)"

definition op_mod :: "int_type \<Rightarrow> safe_int \<Rightarrow> int \<Rightarrow> outcome" where
  "op_mod T s rhs = on_copy s (\<lambda>t. op_mod_assign T t rhs)"

subsection \<open>Operators with a \<open>safe_int\<close> right-hand side\<close>

text \<open>\<^verbatim>\<open>return *this op= rhs.value();\<close>\<close>

definition op_add_assign_si :: "int_type \<Rightarrow> safe_int \<Rightarrow> safe_int \<Rightarrow> outcome" where
  "op_add_assign_si T s rhs = op_add_assign T s (value_of rhs)"

definition op_sub_assign_si :: "int_type \<Rightarrow> safe_int \<Rightarrow> safe_int \<Rightarrow> outcome" where
  "op_sub_assign_si T s rhs = op_sub_assign T s (value_of rhs)"

definition op_mul_assign_si :: "int_type \<Rightarrow> safe_int \<Rightarrow> safe_int \<Rightarrow> outcome" where
  "op_mul_assign_si T s rhs = op_mul_assign T s (value_of rhs)"

definition op_div_assign_si :: "int_type \<Rightarrow> safe_int \<Rightarrow> safe_int \<Rightarrow> outcome" where
  "op_div_assign_si T s rhs = op_div_assign T s (value_of rhs)"

definition op_mod_assign_si :: "int_type \<Rightarrow> safe_int \<Rightarrow> safe_int \<Rightarrow> outcome" where
  "op_mod_assign_si T s rhs = op_mod_assign T s (value_of rhs)"

text \<open>\<^verbatim>\<open>return safe_int(val) op= rhs.value();\<close>\<close>

definition op_add_si :: "int_type \<Rightarrow> safe_int \<Rightarrow> safe_int \<Rightarrow> outcome" where
  "op_add_si T s rhs = on_copy s (\<lambda>t. op_add_assign T t (value_of rhs))"

definition op_sub_si :: "int_type \<Rightarrow> safe_int \<Rightarrow> safe_int \<Rightarrow> outcome" where
  "op_sub_si T s rhs = on_copy s (\<lambda>t. op_sub_assign T t (value_of rhs))"

definition op_mul_si :: "int_type \<Rightarrow> safe_int \<Rightarrow> safe_int \<Rightarrow> outcome" where
  "op_mul_si T s rhs = on_copy s (\<lambda>t. op_mul_assign T t (value_of rhs))"

definition op_div_si :: "int_type \<Rightarrow> safe_int \<Rightarrow> safe_int \<Rightarrow> outcome" where
  "op_div_si T s rhs = on_copy s (\<lambda>t. op_div_assign T t (value_of rhs))"

definition op_mod_si :: "int_type \<Rightarrow> safe_int \<Rightarrow> safe_int \<Rightarrow> outcome" where
  "op_mod_si T s rhs = on_copy s (\<lambda>t. op_mod_assign T t (value_of rhs))"


subsection \<open>All operators at once\<close>

text \<open>
  For statements about every operator: the five arithmetic operators, and each family of
  member functions indexed by them.
\<close>

datatype binop = Add | Sub | Mul | Div | Mod

datatype unop = Neg | PreInc | PreDec | PostInc | PostDec

fun unary :: "int_type \<Rightarrow> unop \<Rightarrow> safe_int \<Rightarrow> outcome" where
  "unary T Neg s = op_neg T s"
| "unary T PreInc s = op_pre_inc T s"
| "unary T PreDec s = op_pre_dec T s"
| "unary T PostInc s = op_post_inc T s"
| "unary T PostDec s = op_post_dec T s"

fun compound :: "int_type \<Rightarrow> binop \<Rightarrow> safe_int \<Rightarrow> int \<Rightarrow> outcome" where
  "compound T Add s rhs = op_add_assign T s rhs"
| "compound T Sub s rhs = op_sub_assign T s rhs"
| "compound T Mul s rhs = op_mul_assign T s rhs"
| "compound T Div s rhs = op_div_assign T s rhs"
| "compound T Mod s rhs = op_mod_assign T s rhs"

fun binary :: "int_type \<Rightarrow> binop \<Rightarrow> safe_int \<Rightarrow> int \<Rightarrow> outcome" where
  "binary T Add s rhs = op_add T s rhs"
| "binary T Sub s rhs = op_sub T s rhs"
| "binary T Mul s rhs = op_mul T s rhs"
| "binary T Div s rhs = op_div T s rhs"
| "binary T Mod s rhs = op_mod T s rhs"

fun compound_si :: "int_type \<Rightarrow> binop \<Rightarrow> safe_int \<Rightarrow> safe_int \<Rightarrow> outcome" where
  "compound_si T Add s rhs = op_add_assign_si T s rhs"
| "compound_si T Sub s rhs = op_sub_assign_si T s rhs"
| "compound_si T Mul s rhs = op_mul_assign_si T s rhs"
| "compound_si T Div s rhs = op_div_assign_si T s rhs"
| "compound_si T Mod s rhs = op_mod_assign_si T s rhs"

fun binary_si :: "int_type \<Rightarrow> binop \<Rightarrow> safe_int \<Rightarrow> safe_int \<Rightarrow> outcome" where
  "binary_si T Add s rhs = op_add_si T s rhs"
| "binary_si T Sub s rhs = op_sub_si T s rhs"
| "binary_si T Mul s rhs = op_mul_si T s rhs"
| "binary_si T Div s rhs = op_div_si T s rhs"
| "binary_si T Mod s rhs = op_mod_si T s rhs"

subsection \<open>Instantiations used in the examples\<close>

text \<open>
  With a 32-bit \<open>int\<close>: \<^verbatim>\<open>safe_int<signed char>\<close> computes in \<open>int\<close>, \<^verbatim>\<open>safe_int<int>\<close>
  in \<open>int\<close> itself.
\<close>

definition int8 :: int_type where
  "int8 = \<lparr>bits = 8, arith_bits = 32\<rparr>"

definition int32 :: int_type where
  "int32 = \<lparr>bits = 32, arith_bits = 32\<rparr>"

section \<open>Bounds\<close>

lemma max_min: "min_I T = - max_I T - 1"
  by (simp add: max_I_def min_I_def)

lemma max_I_ge1: "well_formed T \<Longrightarrow> 1 \<le> max_I T"
proof -
  assume "well_formed T"
  then have "2 \<le> bits T" by (simp add: well_formed_def)
  then have "(2::int) ^ 1 \<le> 2 ^ (bits T - 1)"
    by (intro power_increasing) auto
  then show ?thesis by (simp add: max_I_def)
qed

lemma max_I_le_arith: "well_formed T \<Longrightarrow> max_I T < 2 ^ (arith_bits T - 1)"
proof -
  assume wf: "well_formed T"
  from wf have "bits T - 1 \<le> arith_bits T - 1" by (auto simp: well_formed_def)
  then have "(2::int) ^ (bits T - 1) \<le> 2 ^ (arith_bits T - 1)"
    by (rule power_increasing) simp
  then show ?thesis unfolding max_I_def by linarith
qed

lemma in_range_arith_ok: "well_formed T \<Longrightarrow> in_range T x \<Longrightarrow> arith_ok T x"
  using max_I_le_arith [of T] max_min [of T] unfolding in_range_def arith_ok_def by linarith

lemma to_I_id: "well_formed T \<Longrightarrow> in_range T x \<Longrightarrow> to_I T x = x"
proof -
  assume wf: "well_formed T" and r: "in_range T x"
  from wf have "bits T = Suc (bits T - 1)" by (simp add: well_formed_def)
  then have p: "(2::int) ^ bits T = 2 * 2 ^ (bits T - 1)"
    by (metis power_Suc)
  from r have "0 \<le> x + 2 ^ (bits T - 1)" "x + 2 ^ (bits T - 1) < 2 ^ bits T"
    by (simp_all add: in_range_def max_I_def min_I_def p)
  then have "(x + 2 ^ (bits T - 1)) mod 2 ^ bits T = x + 2 ^ (bits T - 1)"
    by (rule mod_pos_pos_trivial)
  then show ?thesis by (simp add: to_I_def)
qed

lemma store_exact:
  "well_formed T \<Longrightarrow> in_range T x \<Longrightarrow>
   store T s (arith T x) = Returns (s\<lparr>val := x\<rparr>) (s\<lparr>val := x\<rparr>)"
  by (simp add: store_def arith_def in_range_arith_ok to_I_id)

lemma wide_arith_ok:
  "well_formed T \<Longrightarrow> bits T < arith_bits T \<Longrightarrow> arith_ok T (- min_I T)"
proof -
  assume wf: "well_formed T" and lt: "bits T < arith_bits T"
  from wf lt have "bits T - 1 < arith_bits T - 1" by (auto simp: well_formed_def)
  then have "(2::int) ^ (bits T - 1) < 2 ^ (arith_bits T - 1)"
    by (rule power_strict_increasing) simp
  moreover have "(0::int) \<le> 2 ^ (bits T - 1)" by simp
  ultimately show ?thesis unfolding arith_ok_def min_I_def by linarith
qed

text \<open>
  The operands of the comparisons in the tests are written without a check in the
  definitions above: \<open>-max\<close>, and, behind the \<open>&&\<close> that guards each of them,
  \<open>max - rhs\<close>, \<open>min - rhs\<close>, \<open>max + rhs\<close> and \<open>min + rhs\<close>. None of them can overflow.
\<close>

lemma guard_operands_representable:
  assumes "well_formed T" and "in_range T rhs"
  shows "arith_ok T (- max_I T)"
    and "rhs > 0 \<Longrightarrow> arith_ok T (max_I T - rhs)"
    and "rhs < 0 \<Longrightarrow> arith_ok T (min_I T - rhs)"
    and "rhs < 0 \<Longrightarrow> arith_ok T (max_I T + rhs)"
    and "rhs > 0 \<Longrightarrow> arith_ok T (min_I T + rhs)"
proof -
  have m: "1 \<le> max_I T" by (rule max_I_ge1 [OF assms(1)])
  have r: "in_range T x \<Longrightarrow> arith_ok T x" for x
    using assms(1) by (rule in_range_arith_ok)
  show "arith_ok T (- max_I T)"
    using m max_min [of T] by (intro r) (simp add: in_range_def)
  show "rhs > 0 \<Longrightarrow> arith_ok T (max_I T - rhs)"
    using assms(2) max_min [of T] by (intro r) (simp add: in_range_def)
  show "rhs < 0 \<Longrightarrow> arith_ok T (min_I T - rhs)"
    using assms(2) max_min [of T] by (intro r) (simp add: in_range_def)
  show "rhs < 0 \<Longrightarrow> arith_ok T (max_I T + rhs)"
    using assms(2) max_min [of T] by (intro r) (simp add: in_range_def)
  show "rhs > 0 \<Longrightarrow> arith_ok T (min_I T + rhs)"
    using assms(2) max_min [of T] by (intro r) (simp add: in_range_def)
qed

lemma div_less_iff_int: "0 < v \<Longrightarrow> (m div v < r) \<longleftrightarrow> (m < v * r)" for m v r :: int
proof
  assume v: "0 < v" and l: "m div v < r"
  have "m = v * (m div v) + m mod v" by simp
  moreover have "m mod v < v" using v by simp
  moreover from l have "m div v + 1 \<le> r" by simp
  then have "v * (m div v + 1) \<le> v * r" using v by (intro mult_left_mono) auto
  then have "v * (m div v) + v \<le> v * r" by (simp add: algebra_simps)
  ultimately show "m < v * r" by linarith
next
  assume v: "0 < v" and l: "m < v * r"
  show "m div v < r"
  proof (rule ccontr)
    assume "\<not> m div v < r"
    then have "r \<le> m div v" by simp
    then have "v * r \<le> v * (m div v)" using v by (intro mult_left_mono) auto
    moreover have "m = v * (m div v) + m mod v" by simp
    moreover have "0 \<le> m mod v" using v by simp
    ultimately show False using l by linarith
  qed
qed

lemma sdiv_pos: "0 \<le> a \<Longrightarrow> 0 < b \<Longrightarrow> a sdiv b = a div (b::int)"
  by (cases "a = 0") (simp_all add: signed_divide_int_def)

lemma sdiv_neg: "a \<le> 0 \<Longrightarrow> b < 0 \<Longrightarrow> a sdiv b = (- a) div (- b::int)"
  by (cases "a = 0") (simp_all add: signed_divide_int_def)

text \<open>The quotient \<open>max / val\<close> for positive \<open>val\<close>.\<close>

lemma max_quot:
  assumes "well_formed T" and "0 < v"
  shows "arith_div T (max_I T) v = Some (max_I T div v)"
    and "r > max_I T div v \<longleftrightarrow> max_I T < v * r"
proof -
  have m: "0 \<le> max_I T" using max_I_ge1 [OF assms(1)] by simp
  have "max_I T < v * (max_I T + 1)"
  proof -
    have "1 * (max_I T + 1) \<le> v * (max_I T + 1)"
      using m assms(2) by (intro mult_right_mono) auto
    then show ?thesis by simp
  qed
  then have "max_I T div v < max_I T + 1"
    using div_less_iff_int [OF assms(2), of "max_I T" "max_I T + 1"] by blast
  moreover have "0 \<le> max_I T div v" using m assms(2) by (simp add: pos_imp_zdiv_nonneg_iff)
  ultimately have "in_range T (max_I T div v)"
    using max_min [of T] unfolding in_range_def by linarith
  then have "arith_ok T (max_I T div v)" using assms(1) by (rule in_range_arith_ok [rotated])
  then show "arith_div T (max_I T) v = Some (max_I T div v)"
    using m assms(2) by (simp add: arith_div_def arith_def sdiv_pos)
  show "r > max_I T div v \<longleftrightarrow> max_I T < v * r"
    using assms(2) by (rule div_less_iff_int)
qed

text \<open>The quotient \<open>min / val\<close> for negative \<open>val\<close>.\<close>

lemma min_quot_value:
  assumes "v < 0"
  shows "min_I T sdiv v = (- min_I T) div (- v)"
    and "r > min_I T sdiv v \<longleftrightarrow> v * r < min_I T"
proof -
  have "min_I T \<le> 0" by (simp add: min_I_def)
  then show q: "min_I T sdiv v = (- min_I T) div (- v)"
    using assms by (rule sdiv_neg)
  have "(- min_I T) div (- v) < r \<longleftrightarrow> - min_I T < (- v) * r"
    using assms by (intro div_less_iff_int) simp
  then show "r > min_I T sdiv v \<longleftrightarrow> v * r < min_I T"
    unfolding q by simp
qed

lemma min_quot_defined:
  assumes "well_formed T" and "v < 0" and "v \<noteq> - 1 \<or> bits T < arith_bits T"
  shows "arith_div T (min_I T) v = Some (min_I T sdiv v)"
proof -
  have "arith_ok T (min_I T sdiv v)"
  proof (cases "v = - 1")
    case True
    with assms(3) have "bits T < arith_bits T" by simp
    with assms(1) have "arith_ok T (- min_I T)" by (rule wide_arith_ok)
    with True show ?thesis by simp
  next
    case False
    with assms(2) have v: "2 \<le> - v" by simp
    have m: "0 < - min_I T" using max_I_ge1 [OF assms(1)] max_min [of T] by simp
    have "1 * (- min_I T) < (- v) * (- min_I T)"
      using m v by (intro mult_strict_right_mono) auto
    then have "- min_I T < (- v) * (- min_I T)" by simp
    then have "(- min_I T) div (- v) < - min_I T"
      using div_less_iff_int [of "- v" "- min_I T" "- min_I T"] v by simp
    moreover have "0 \<le> (- min_I T) div (- v)"
      using pos_imp_zdiv_nonneg_iff [of "- v" "- min_I T"] m v by linarith
    ultimately have "in_range T (min_I T sdiv v)"
      unfolding min_quot_value(1) [OF assms(2)] in_range_def using max_min [of T] by linarith
    with assms(1) show ?thesis by (rule in_range_arith_ok)
  qed
  with assms(2) show ?thesis by (simp add: arith_div_def arith_def)
qed

section \<open>The example instantiations\<close>

lemma int8_simps:
  "well_formed int8" "max_I int8 = 127" "min_I int8 = - 128"
  "in_range int8 x \<longleftrightarrow> - 128 \<le> x \<and> x \<le> 127"
  by (simp_all add: well_formed_def max_I_def min_I_def in_range_def int8_def)

lemma int32_simps:
  "well_formed int32" "max_I int32 = 2147483647" "min_I int32 = - 2147483648"
  "in_range int32 x \<longleftrightarrow> - 2147483648 \<le> x \<and> x \<le> 2147483647"
  by (simp_all add: well_formed_def max_I_def min_I_def in_range_def int32_def)

section \<open>Unary negation\<close>

text \<open>
  C9. For a stored value in range, unary negation throws \<open>Overflow\<close> exactly when the value
  is \<open>min\<close>, which is exactly when \<open>val < -max\<close>; for every other value \<open>x\<close> it returns
  \<open>-x\<close> and leaves the receiver as it was.
\<close>

theorem neg_spec:
  assumes "well_formed T" and "in_range T (val s)"
  shows "(op_neg T s = Throws Overflow s \<longleftrightarrow> val s = min_I T)
       \<and> (val s = min_I T \<longleftrightarrow> val s < - max_I T)
       \<and> (val s \<noteq> min_I T \<longrightarrow> op_neg T s = Returns \<lparr>val = - val s\<rparr> s)"
proof -
  have eq: "val s = min_I T \<longleftrightarrow> val s < - max_I T"
    using assms(2) max_min [of T] unfolding in_range_def by linarith
  have ok: "op_neg T s = Returns \<lparr>val = - val s\<rparr> s" if "val s \<noteq> min_I T"
  proof -
    from that eq have "in_range T (- val s)"
      using assms(2) max_min [of T] unfolding in_range_def by linarith
    with assms(1) that eq show ?thesis
      by (simp add: op_neg_def arith_def in_range_arith_ok to_I_id safe_int_ctor_def)
  qed
  have "op_neg T s = Throws Overflow s \<longleftrightarrow> val s = min_I T"
  proof (cases "val s = min_I T")
    case True
    with eq show ?thesis by (simp add: op_neg_def)
  next
    case False
    with ok show ?thesis by simp
  qed
  with eq ok show ?thesis by blast
qed

theorem neg_spec_witness:
  "well_formed int8 \<and> in_range int8 (val \<lparr>val = - 127\<rparr>)
   \<and> op_neg int8 \<lparr>val = - 127\<rparr> = Returns \<lparr>val = 127\<rparr> \<lparr>val = - 127\<rparr>
   \<and> op_neg int8 \<lparr>val = - 128\<rparr> = Throws Overflow \<lparr>val = - 128\<rparr>"
proof -
  have wf: "well_formed int8" by (simp add: well_formed_def int8_def)
  have r1: "in_range int8 (val \<lparr>val = - 127\<rparr>)"
    by (simp add: in_range_def min_I_def max_I_def int8_def)
  have r2: "in_range int8 (val \<lparr>val = - 128\<rparr>)"
    by (simp add: in_range_def min_I_def max_I_def int8_def)
  have m: "min_I int8 = - 128" by (simp add: min_I_def int8_def)
  from neg_spec [OF wf r1] neg_spec [OF wf r2] wf r1 m show ?thesis by simp
qed

section \<open>Binary operators run the compound assignment on a copy\<close>

lemma copy_eq: "safe_int_ctor (val s) = s"
  by (simp add: safe_int_ctor_def)

lemma on_copy_eq:
  "on_copy s f = (case f s of Returns r t \<Rightarrow> Returns r s | Throws e t \<Rightarrow> Throws e s | Undefined \<Rightarrow> Undefined)"
  by (simp add: on_copy_def copy_eq)

section \<open>Subtraction\<close>

text \<open>Subtraction, stated on the compound assignment.\<close>

lemma sub_assign_cases:
  assumes "well_formed T" and "in_range T (val s)" and "in_range T rhs"
  shows "op_sub_assign T s rhs =
     (if val s \<ge> 0 \<and> rhs < - max_I T then Throws Overflow s
      else if rhs < 0 \<and> val s > max_I T + rhs then Throws Overflow s
      else if rhs > 0 \<and> val s < min_I T + rhs then Throws Underflow s
      else Returns (s\<lparr>val := val s - rhs\<rparr>) (s\<lparr>val := val s - rhs\<rparr>))"
proof -
  have "in_range T (val s - rhs)"
    if "\<not> (val s \<ge> 0 \<and> rhs < - max_I T)" "\<not> (rhs < 0 \<and> val s > max_I T + rhs)"
       "\<not> (rhs > 0 \<and> val s < min_I T + rhs)"
    using that assms(2,3) max_min [of T] unfolding in_range_def by linarith
  then show ?thesis
    using assms(1) by (simp add: op_sub_assign_def store_exact)
qed

text \<open>
  C8. For a stored value \<open>val\<close> and an operand \<open>rhs\<close> in range, \<open>-=\<close> and \<open>-\<close> throw
  \<open>Overflow\<close> when \<open>val \<ge> 0\<close> and \<open>rhs < -max\<close>; in the other cases with \<open>rhs < 0\<close> they
  throw \<open>Overflow\<close> exactly if \<open>val > max + rhs\<close>; when \<open>rhs > 0\<close> they throw \<open>Underflow\<close>
  exactly if \<open>val < min + rhs\<close>; when none of the three tests holds they return
  \<open>val - rhs\<close> (which \<open>-=\<close> also stores, and \<open>-\<close> does not).
\<close>

theorem sub_spec:
  assumes "well_formed T" and "in_range T (val s)" and "in_range T rhs"
  shows "(val s \<ge> 0 \<and> rhs < - max_I T \<longrightarrow>
            op_sub_assign T s rhs = Throws Overflow s \<and> op_sub T s rhs = Throws Overflow s)
       \<and> (rhs < 0 \<and> \<not> (val s \<ge> 0 \<and> rhs < - max_I T) \<longrightarrow>
            (op_sub_assign T s rhs = Throws Overflow s \<longleftrightarrow> val s > max_I T + rhs)
          \<and> (op_sub T s rhs = Throws Overflow s \<longleftrightarrow> val s > max_I T + rhs))
       \<and> (rhs > 0 \<longrightarrow>
            (op_sub_assign T s rhs = Throws Underflow s \<longleftrightarrow> val s < min_I T + rhs)
          \<and> (op_sub T s rhs = Throws Underflow s \<longleftrightarrow> val s < min_I T + rhs))
       \<and> (\<not> (val s \<ge> 0 \<and> rhs < - max_I T) \<and> \<not> (rhs < 0 \<and> val s > max_I T + rhs)
            \<and> \<not> (rhs > 0 \<and> val s < min_I T + rhs) \<longrightarrow>
            op_sub_assign T s rhs = Returns \<lparr>val = val s - rhs\<rparr> \<lparr>val = val s - rhs\<rparr>
          \<and> op_sub T s rhs = Returns \<lparr>val = val s - rhs\<rparr> s)"
proof -
  note c = sub_assign_cases [OF assms]
  have b: "op_sub T s rhs =
     (case op_sub_assign T s rhs of Returns r t \<Rightarrow> Returns r s | Throws e t \<Rightarrow> Throws e s
      | Undefined \<Rightarrow> Undefined)"
    by (simp add: op_sub_def on_copy_eq)
  show ?thesis unfolding b unfolding c using max_I_ge1 [OF assms(1)] by simp
qed

theorem sub_spec_witness:
  "well_formed int8
   \<and> op_sub_assign int8 \<lparr>val = 0\<rparr> (- 128) = Throws Overflow \<lparr>val = 0\<rparr>
   \<and> op_sub int8 \<lparr>val = 100\<rparr> (- 28) = Throws Overflow \<lparr>val = 100\<rparr>
   \<and> op_sub_assign int8 \<lparr>val = - 100\<rparr> 29 = Throws Underflow \<lparr>val = - 100\<rparr>
   \<and> op_sub_assign int8 \<lparr>val = - 100\<rparr> 28 = Returns \<lparr>val = - 128\<rparr> \<lparr>val = - 128\<rparr>
   \<and> op_sub int8 \<lparr>val = - 1\<rparr> (- 128) = Returns \<lparr>val = 127\<rparr> \<lparr>val = - 1\<rparr>"
  using sub_spec [of int8 "\<lparr>val = 0\<rparr>" "- 128"]
    sub_spec [of int8 "\<lparr>val = 100\<rparr>" "- 28"]
    sub_spec [of int8 "\<lparr>val = - 100\<rparr>" 29]
    sub_spec [of int8 "\<lparr>val = - 100\<rparr>" 28]
    sub_spec [of int8 "\<lparr>val = - 1\<rparr>" "- 128"]
  by (simp add: int8_simps)

section \<open>Multiplication of a positive stored value\<close>

lemma store_not_throws: "store T s e \<noteq> Throws e' t"
  by (simp add: store_def split: option.split)

lemma mul_assign_pos:
  assumes "well_formed T" and "0 < val s"
  shows "op_mul_assign T s rhs =
     (if rhs > max_I T sdiv val s then Throws Overflow s
      else store T s (arith T (val s * rhs)))"
proof -
  have "0 \<le> max_I T" using max_I_ge1 [OF assms(1)] by simp
  then have "max_I T sdiv val s = max_I T div val s" using assms(2) by (rule sdiv_pos)
  then show ?thesis
    using assms(2) max_quot(1) [OF assms] by (simp add: op_mul_assign_def)
qed

text \<open>
  C10. When the stored value is strictly positive, \<open>*=\<close> and \<open>*\<close> never throw \<open>Underflow\<close>,
  whatever \<open>rhs\<close> is (no assumption on \<open>rhs\<close>): an exception they throw is \<open>Overflow\<close>, and
  then \<open>rhs > max / val\<close>.
\<close>

theorem mul_pos_no_underflow:
  assumes "well_formed T" and "0 < val s"
  shows "op_mul_assign T s rhs \<noteq> Throws Underflow t
       \<and> op_mul T s rhs \<noteq> Throws Underflow t
       \<and> (op_mul_assign T s rhs = Throws e t \<longrightarrow> e = Overflow \<and> rhs > max_I T sdiv val s)
       \<and> (op_mul T s rhs = Throws e t \<longrightarrow> e = Overflow \<and> rhs > max_I T sdiv val s)"
proof -
  note c = mul_assign_pos [OF assms, of rhs]
  have b: "op_mul T s rhs =
     (case op_mul_assign T s rhs of Returns r t \<Rightarrow> Returns r s | Throws e t \<Rightarrow> Throws e s
      | Undefined \<Rightarrow> Undefined)"
    by (simp add: op_mul_def on_copy_eq)
  show ?thesis unfolding b unfolding c
    by (auto simp: store_def split: option.splits)
qed

theorem mul_pos_no_underflow_witness:
  "well_formed int8 \<and> 0 < val \<lparr>val = 2\<rparr>
   \<and> op_mul_assign int8 \<lparr>val = 2\<rparr> 64 = Throws Overflow \<lparr>val = 2\<rparr>
   \<and> 64 > max_I int8 sdiv val \<lparr>val = 2\<rparr>
   \<and> op_mul int8 \<lparr>val = 2\<rparr> (- 128) \<noteq> Throws Underflow \<lparr>val = 2\<rparr>"
proof -
  have wf: "well_formed int8" and p: "0 < val \<lparr>val = 2\<rparr>" by (simp_all add: int8_simps)
  have t: "op_mul_assign int8 \<lparr>val = 2\<rparr> 64 = Throws Overflow \<lparr>val = 2\<rparr>"
    by (simp add: mul_assign_pos [OF wf p] int8_simps signed_divide_int_def)
  from mul_pos_no_underflow [OF wf p, where rhs = 64 and e = Overflow and t = "\<lparr>val = 2\<rparr>"]
       mul_pos_no_underflow [OF wf p, where rhs = "- 128" and t = "\<lparr>val = 2\<rparr>"] wf t
  show ?thesis by simp
qed

section \<open>Multiplication by cases\<close>

lemma min_quot_undefined:
  assumes "well_formed T" and "\<not> bits T < arith_bits T"
  shows "arith_div T (min_I T) (- 1) = None"
proof -
  from assms have "arith_bits T = bits T" by (simp add: well_formed_def)
  then have "\<not> arith_ok T (- min_I T)" by (simp add: arith_ok_def min_I_def)
  then show ?thesis by (simp add: arith_div_def arith_def)
qed

lemma mul_assign_neg:
  assumes "well_formed T" and "val s < 0"
  shows "op_mul_assign T s rhs =
     (if (val s < - max_I T \<or> rhs < - max_I T) \<and> (val s = - 1 \<or> rhs = - 1)
      then Throws Overflow s
      else if val s = - 1 \<and> \<not> bits T < arith_bits T then Undefined
      else if rhs > min_I T sdiv val s then Throws Underflow s
      else store T s (arith T (val s * rhs)))"
proof (cases "val s = - 1 \<and> \<not> bits T < arith_bits T")
  case True
  then show ?thesis
    using min_quot_undefined [OF assms(1)] by (simp add: op_mul_assign_def)
next
  case False
  then have "val s \<noteq> - 1 \<or> bits T < arith_bits T" by blast
  from min_quot_defined [OF assms this] assms(2)
  have e1: "op_mul_assign T s rhs =
     (if (val s < - max_I T \<or> rhs < - max_I T) \<and> (val s = - 1 \<or> rhs = - 1)
      then Throws Overflow s
      else if rhs > min_I T sdiv val s then Throws Underflow s
      else store T s (arith T (val s * rhs)))"
    by (simp add: op_mul_assign_def)
  have e2: "(if val s = - 1 \<and> \<not> bits T < arith_bits T then Undefined else X) = X" for X
    by (rule if_not_P [OF False])
  show ?thesis by (simp only: e1 e2)
qed

lemma mul_assign_zero:
  assumes "well_formed T" and "val s = 0"
  shows "op_mul_assign T s rhs = Returns \<lparr>val = 0\<rparr> \<lparr>val = 0\<rparr>"
proof -
  have "in_range T 0" using max_I_ge1 [OF assms(1)] max_min [of T] by (simp add: in_range_def)
  with assms show ?thesis by (simp add: op_mul_assign_def store_exact)
qed

lemma op_mul_eq:
  "op_mul T s rhs =
     (case op_mul_assign T s rhs of Returns r t \<Rightarrow> Returns r s | Throws e t \<Rightarrow> Throws e s
      | Undefined \<Rightarrow> Undefined)"
  by (simp add: op_mul_def on_copy_eq)

text \<open>
  The tests of \<open>*=\<close>, for a stored value \<open>val\<close> and an operand \<open>rhs\<close> in range: when
  \<open>val > 0\<close> it throws \<open>Overflow\<close> exactly if \<open>rhs > max / val\<close>; when \<open>val < 0\<close> it throws
  \<open>Overflow\<close> exactly if (\<open>val < -max\<close> or \<open>rhs < -max\<close>) and (\<open>val = -1\<close> or \<open>rhs = -1\<close>),
  and otherwise throws \<open>Underflow\<close> exactly if \<open>rhs > min / val\<close>; when \<open>val = 0\<close> it
  returns 0. Where no test fires, the quotient \<open>min / val\<close> is representable and
  \<open>val * rhs\<close> lies in \<open>[min, max]\<close>, the result is \<open>val * rhs\<close>. The operator \<open>*\<close> throws
  the same exception or returns the same value, and leaves the receiver as it was.
\<close>

lemma mul_assign_tests:
  assumes "well_formed T" and "in_range T (val s)" and "in_range T rhs"
  shows "(val s > 0 \<longrightarrow>
            (op_mul_assign T s rhs = Throws Overflow s \<longleftrightarrow> rhs > max_I T sdiv val s))
       \<and> (val s < 0 \<longrightarrow>
            (op_mul_assign T s rhs = Throws Overflow s \<longleftrightarrow>
               (val s < - max_I T \<or> rhs < - max_I T) \<and> (val s = - 1 \<or> rhs = - 1)))
       \<and> (val s < 0
            \<and> \<not> ((val s < - max_I T \<or> rhs < - max_I T) \<and> (val s = - 1 \<or> rhs = - 1)) \<longrightarrow>
            (op_mul_assign T s rhs = Throws Underflow s \<longleftrightarrow> rhs > min_I T sdiv val s))
       \<and> (val s = 0 \<longrightarrow> op_mul_assign T s rhs = Returns \<lparr>val = 0\<rparr> \<lparr>val = 0\<rparr>)
       \<and> ((val s \<noteq> - 1 \<or> bits T < arith_bits T)
            \<and> (\<forall>e t. op_mul_assign T s rhs \<noteq> Throws e t) \<and> in_range T (val s * rhs) \<longrightarrow>
            op_mul_assign T s rhs = Returns \<lparr>val = val s * rhs\<rparr> \<lparr>val = val s * rhs\<rparr>)
       \<and> op_mul T s rhs =
            (case op_mul_assign T s rhs of Returns r t \<Rightarrow> Returns r s
             | Throws e t \<Rightarrow> Throws e s | Undefined \<Rightarrow> Undefined)"
proof -
  consider (pos) "val s > 0" | (neg) "val s < 0" | (zero) "val s = 0" by linarith
  then have main: "(val s > 0 \<longrightarrow>
            (op_mul_assign T s rhs = Throws Overflow s \<longleftrightarrow> rhs > max_I T sdiv val s))
       \<and> (val s < 0 \<longrightarrow>
            (op_mul_assign T s rhs = Throws Overflow s \<longleftrightarrow>
               (val s < - max_I T \<or> rhs < - max_I T) \<and> (val s = - 1 \<or> rhs = - 1)))
       \<and> (val s < 0
            \<and> \<not> ((val s < - max_I T \<or> rhs < - max_I T) \<and> (val s = - 1 \<or> rhs = - 1)) \<longrightarrow>
            (op_mul_assign T s rhs = Throws Underflow s \<longleftrightarrow> rhs > min_I T sdiv val s))
       \<and> (val s = 0 \<longrightarrow> op_mul_assign T s rhs = Returns \<lparr>val = 0\<rparr> \<lparr>val = 0\<rparr>)
       \<and> ((val s \<noteq> - 1 \<or> bits T < arith_bits T)
            \<and> (\<forall>e t. op_mul_assign T s rhs \<noteq> Throws e t) \<and> in_range T (val s * rhs) \<longrightarrow>
            op_mul_assign T s rhs = Returns \<lparr>val = val s * rhs\<rparr> \<lparr>val = val s * rhs\<rparr>)"
  proof cases
    case pos
    show ?thesis
      unfolding mul_assign_pos [OF assms(1) pos]
      using pos assms(1) by (simp add: store_not_throws store_exact)
  next
    case neg
    have top: "\<not> - min_I T < rhs"
      using assms(3) max_min [of T] unfolding in_range_def by linarith
    show ?thesis
      unfolding mul_assign_neg [OF assms(1) neg]
      using neg assms(1) top by (simp add: store_not_throws store_exact)
  next
    case zero
    show ?thesis
      unfolding mul_assign_zero [OF assms(1) zero]
      using zero by simp
  qed
  with op_mul_eq [of T s rhs] show ?thesis by blast
qed


lemma mul_assign_tests_examples:
  "well_formed int8
   \<and> op_mul_assign int8 \<lparr>val = 2\<rparr> 64 = Throws Overflow \<lparr>val = 2\<rparr>
   \<and> op_mul_assign int8 \<lparr>val = - 128\<rparr> (- 1) = Throws Overflow \<lparr>val = - 128\<rparr>
   \<and> op_mul_assign int8 \<lparr>val = - 2\<rparr> 65 = Throws Underflow \<lparr>val = - 2\<rparr>
   \<and> op_mul_assign int8 \<lparr>val = 0\<rparr> 5 = Returns \<lparr>val = 0\<rparr> \<lparr>val = 0\<rparr>
   \<and> op_mul_assign int8 \<lparr>val = - 2\<rparr> 64 = Returns \<lparr>val = - 128\<rparr> \<lparr>val = - 128\<rparr>"
proof -
  have wf: "well_formed int8" by (simp add: int8_simps)
  have r: "in_range int8 (val \<lparr>val = 2\<rparr>)" "in_range int8 64"
    "in_range int8 (val \<lparr>val = - 128\<rparr>)" "in_range int8 (- 1)"
    "in_range int8 (val \<lparr>val = - 2\<rparr>)" "in_range int8 65"
    "in_range int8 (val \<lparr>val = 0\<rparr>)" "in_range int8 5"
    by (simp_all add: int8_simps)
  have a1: "val \<lparr>val = 2\<rparr> > 0" "64 > max_I int8 sdiv val \<lparr>val = 2\<rparr>"
    by (simp_all add: int8_simps signed_divide_int_def)
  have a2: "val \<lparr>val = - 128\<rparr> < 0"
    "(val \<lparr>val = - 128\<rparr> < - max_I int8 \<or> - 1 < - max_I int8)
     \<and> (val \<lparr>val = - 128\<rparr> = - 1 \<or> (- 1 :: int) = - 1)"
    by (simp_all add: int8_simps)
  have a3: "val \<lparr>val = - 2\<rparr> < 0" "val \<lparr>val = - 2\<rparr> \<noteq> - 1"
    "\<not> ((val \<lparr>val = - 2\<rparr> < - max_I int8 \<or> 65 < - max_I int8)
        \<and> (val \<lparr>val = - 2\<rparr> = - 1 \<or> (65 :: int) = - 1))"
    "65 > min_I int8 sdiv val \<lparr>val = - 2\<rparr>"
    by (simp_all add: int8_simps signed_divide_int_def)
  have a4: "val \<lparr>val = 0\<rparr> = 0" by simp
  have e: "op_mul_assign int8 \<lparr>val = - 2\<rparr> 64 = Returns \<lparr>val = - 128\<rparr> \<lparr>val = - 128\<rparr>"
    by (simp add: op_mul_assign_def arith_div_def arith_def arith_ok_def store_def to_I_def
        max_I_def min_I_def int8_def signed_divide_int_def)
  have a5: "\<forall>e t. op_mul_assign int8 \<lparr>val = - 2\<rparr> 64 \<noteq> Throws e t"
    "in_range int8 (val \<lparr>val = - 2\<rparr> * 64)" "val \<lparr>val = - 2\<rparr> * 64 = - 128"
    by (simp_all add: e int8_simps)
  have "op_mul_assign int8 \<lparr>val = 2\<rparr> 64 = Throws Overflow \<lparr>val = 2\<rparr>"
    using mul_assign_tests [OF wf r(1,2)] a1 by blast
  moreover have "op_mul_assign int8 \<lparr>val = - 128\<rparr> (- 1) = Throws Overflow \<lparr>val = - 128\<rparr>"
    using mul_assign_tests [OF wf r(3,4)] a2 by blast
  moreover have "op_mul_assign int8 \<lparr>val = - 2\<rparr> 65 = Throws Underflow \<lparr>val = - 2\<rparr>"
    using mul_assign_tests [OF wf r(5,6)] a3 by blast
  moreover have "op_mul_assign int8 \<lparr>val = 0\<rparr> 5 = Returns \<lparr>val = 0\<rparr> \<lparr>val = 0\<rparr>"
    using mul_assign_tests [OF wf r(7,8)] a4 by blast
  moreover have "op_mul_assign int8 \<lparr>val = - 2\<rparr> 64 = Returns \<lparr>val = - 128\<rparr> \<lparr>val = - 128\<rparr>"
    using mul_assign_tests [OF wf r(5,2)] a3(2) a5 by metis
  ultimately show ?thesis using wf by blast
qed

text \<open>
  C3 at \<open>2 * -100\<close> with an 8-bit \<open>I\<close>: the operands are in range, \<open>val > 0\<close> and
  \<open>rhs > max / val\<close> does not hold, so the case is a non-failing one; \<open>*=\<close> and \<open>*\<close>
  return, and the result is 56, not the product \<open>-200\<close>.
\<close>

theorem mul_result_not_product:
  "in_range int8 (val \<lparr>val = 2\<rparr>) \<and> in_range int8 (- 100)
   \<and> val \<lparr>val = 2\<rparr> > 0 \<and> \<not> - 100 > max_I int8 sdiv val \<lparr>val = 2\<rparr>
   \<and> op_mul_assign int8 \<lparr>val = 2\<rparr> (- 100) = Returns \<lparr>val = 56\<rparr> \<lparr>val = 56\<rparr>
   \<and> op_mul int8 \<lparr>val = 2\<rparr> (- 100) = Returns \<lparr>val = 56\<rparr> \<lparr>val = 2\<rparr>
   \<and> val \<lparr>val = 2\<rparr> * (- 100) \<noteq> 56"
proof -
  have e: "op_mul_assign int8 \<lparr>val = 2\<rparr> (- 100) = Returns \<lparr>val = 56\<rparr> \<lparr>val = 56\<rparr>"
    by (simp add: op_mul_assign_def arith_div_def arith_def arith_ok_def store_def to_I_def
        max_I_def min_I_def int8_def signed_divide_int_def)
  then show ?thesis by (simp add: op_mul_eq int8_simps signed_divide_int_def)
qed

section \<open>Addition, division and modulo on operands in range\<close>

lemma add_assign_cases:
  assumes "well_formed T" and "in_range T (val s)" and "in_range T rhs"
  shows "op_add_assign T s rhs =
     (if rhs > 0 \<and> val s > max_I T - rhs then Throws Overflow s
      else if rhs < 0 \<and> val s < min_I T - rhs then Throws Underflow s
      else Returns (s\<lparr>val := val s + rhs\<rparr>) (s\<lparr>val := val s + rhs\<rparr>))"
proof -
  have "in_range T (val s + rhs)"
    if "\<not> (rhs > 0 \<and> val s > max_I T - rhs)" "\<not> (rhs < 0 \<and> val s < min_I T - rhs)"
    using that assms(2,3) unfolding in_range_def by linarith
  then show ?thesis
    using assms(1) by (simp add: op_add_assign_def store_exact)
qed

lemma min_quot_in_range:
  assumes "well_formed T" and "v \<noteq> 0" and "v \<noteq> - 1"
  shows "in_range T (min_I T sdiv v)"
proof -
  have m: "min_I T < 0" "min_I T = - max_I T - 1"
    using max_I_ge1 [OF assms(1)] max_min [of T] by simp_all
  have r: "min_I T sdiv v \<in> {- \<bar>min_I T\<bar>..\<bar>min_I T\<bar>}" by (rule sdiv_int_range)
  have "min_I T sdiv v \<noteq> - min_I T"
    using int_sdiv_negated_is_minus1 [of "min_I T" v] m(1) assms(3) by simp
  with r m show ?thesis unfolding in_range_def by auto
qed

lemma quot_in_range:
  assumes "well_formed T" and "in_range T a" and "b \<noteq> 0" and "\<not> (a = min_I T \<and> b = - 1)"
  shows "in_range T (a sdiv b)"
proof (cases "a = min_I T")
  case True
  with assms(4) have "b \<noteq> - 1" by simp
  with assms(1,3) True show ?thesis by (simp add: min_quot_in_range)
next
  case False
  have "a sdiv b \<in> {- \<bar>a\<bar>..\<bar>a\<bar>}" by (rule sdiv_int_range)
  with False assms(2) max_min [of T] show ?thesis unfolding in_range_def by auto
qed

lemma div_assign_cases:
  assumes "well_formed T" and "in_range T (val s)" and "in_range T rhs"
  shows "op_div_assign T s rhs =
     (if (val s < - max_I T \<or> rhs < - max_I T) \<and> (val s = - 1 \<or> rhs = - 1)
      then Throws Underflow s
      else if rhs = 0 then Throws DomainError s
      else Returns (s\<lparr>val := val s sdiv rhs\<rparr>) (s\<lparr>val := val s sdiv rhs\<rparr>))"
proof -
  have "in_range T (val s sdiv rhs)"
    if "\<not> ((val s < - max_I T \<or> rhs < - max_I T) \<and> (val s = - 1 \<or> rhs = - 1))" "rhs \<noteq> 0"
  proof -
    from that(1) have "\<not> (val s = min_I T \<and> rhs = - 1)"
      using max_min [of T] by auto
    with assms(1,2) that(2) show ?thesis by (simp add: quot_in_range)
  qed
  then show ?thesis
    using assms(1) by (simp add: op_div_assign_def arith_div_def store_exact)
qed

lemma rem_in_range:
  assumes "in_range T b" and "b \<noteq> 0"
  shows "in_range T (a smod b)"
  using smod_int_range [OF assms(2), of a] assms(1) max_min [of T]
  unfolding in_range_def by auto

lemma mod_assign_cases:
  assumes "well_formed T" and "in_range T (val s)" and "in_range T rhs"
  shows "op_mod_assign T s rhs =
     (if rhs = 0 then Throws DomainError s
      else if val s = min_I T \<and> rhs = - 1 \<and> \<not> bits T < arith_bits T then Undefined
      else Returns (s\<lparr>val := val s smod rhs\<rparr>) (s\<lparr>val := val s smod rhs\<rparr>))"
proof (cases "rhs = 0")
  case True
  then show ?thesis by (simp add: op_mod_assign_def)
next
  case nz: False
  have r: "to_I T (val s smod rhs) = val s smod rhs"
    using assms(1) rem_in_range [OF assms(3) nz] by (rule to_I_id)
  show ?thesis
  proof (cases "val s = min_I T \<and> rhs = - 1")
    case True
    show ?thesis
    proof (cases "bits T < arith_bits T")
      case wide: True
      then have "arith_ok T (val s sdiv rhs)"
        using True wide_arith_ok [OF assms(1)] by simp
      with nz True wide r show ?thesis
        by (simp add: op_mod_assign_def arith_mod_def store_def)
    next
      case False
      with assms(1) have "arith_bits T = bits T" by (simp add: well_formed_def)
      then have "\<not> arith_ok T (- min_I T)" by (simp add: arith_ok_def min_I_def)
      with True False nz show ?thesis
        by (simp add: op_mod_assign_def arith_mod_def store_def)
    qed
  next
    case False
    with assms(1,2) nz have "in_range T (val s sdiv rhs)" by (simp add: quot_in_range)
    with assms(1) have "arith_ok T (val s sdiv rhs)" by (rule in_range_arith_ok)
    with nz False r show ?thesis
      by (auto simp: op_mod_assign_def arith_mod_def store_def)
  qed
qed

section \<open>Results that fit are returned exactly\<close>

lemma mul_fits_no_throw:
  assumes "well_formed T" and "in_range T (val s)" and "in_range T rhs"
    and "in_range T (val s * rhs)" and "val s \<noteq> - 1 \<or> bits T < arith_bits T"
  shows "op_mul_assign T s rhs = Returns \<lparr>val = val s * rhs\<rparr> \<lparr>val = val s * rhs\<rparr>"
proof -
  consider (pos) "val s > 0" | (neg) "val s < 0" | (zero) "val s = 0" by linarith
  then show ?thesis
  proof cases
    case pos
    have "0 \<le> max_I T" using max_I_ge1 [OF assms(1)] by simp
    then have "max_I T sdiv val s = max_I T div val s" using pos by (rule sdiv_pos)
    moreover have "\<not> max_I T < val s * rhs" using assms(4) by (simp add: in_range_def)
    ultimately have "\<not> rhs > max_I T sdiv val s"
      using max_quot(2) [OF assms(1) pos, of rhs] by simp
    then show ?thesis
      unfolding mul_assign_pos [OF assms(1) pos] using assms(1,4) by (simp add: store_exact)
  next
    case neg
    have m: "1 \<le> max_I T" by (rule max_I_ge1 [OF assms(1)])
    have c: "\<not> ((val s < - max_I T \<or> rhs < - max_I T) \<and> (val s = - 1 \<or> rhs = - 1))"
    proof
      assume a: "(val s < - max_I T \<or> rhs < - max_I T) \<and> (val s = - 1 \<or> rhs = - 1)"
      then consider "val s = min_I T" "rhs = - 1" | "rhs = min_I T" "val s = - 1"
        using assms(2,3) m max_min [of T] unfolding in_range_def by force
      then have "val s * rhs = - min_I T" by cases simp_all
      with assms(4) show False using max_min [of T] by (simp add: in_range_def)
    qed
    have "\<not> val s * rhs < min_I T" using assms(4) by (simp add: in_range_def)
    then have u: "\<not> rhs > min_I T sdiv val s"
      using min_quot_value(2) [OF neg, where r = rhs and T = T] by simp
    show ?thesis
      unfolding mul_assign_neg [OF assms(1) neg] using c u assms(1,4,5)
      by (auto simp: store_exact)
  next
    case zero
    then show ?thesis using mul_assign_zero [OF assms(1) zero] by simp
  qed
qed

lemma op_add_eq:
  "op_add T s rhs =
     (case op_add_assign T s rhs of Returns r t \<Rightarrow> Returns r s | Throws e t \<Rightarrow> Throws e s
      | Undefined \<Rightarrow> Undefined)"
  by (simp add: op_add_def on_copy_eq)

lemma op_sub_eq:
  "op_sub T s rhs =
     (case op_sub_assign T s rhs of Returns r t \<Rightarrow> Returns r s | Throws e t \<Rightarrow> Throws e s
      | Undefined \<Rightarrow> Undefined)"
  by (simp add: op_sub_def on_copy_eq)

lemma op_div_eq:
  "op_div T s rhs =
     (case op_div_assign T s rhs of Returns r t \<Rightarrow> Returns r s | Throws e t \<Rightarrow> Throws e s
      | Undefined \<Rightarrow> Undefined)"
  by (simp add: op_div_def on_copy_eq)

lemma op_mod_eq:
  "op_mod T s rhs =
     (case op_mod_assign T s rhs of Returns r t \<Rightarrow> Returns r s | Throws e t \<Rightarrow> Throws e s
      | Undefined \<Rightarrow> Undefined)"
  by (simp add: op_mod_def on_copy_eq)

text \<open>
  C2, as amended. For a stored value \<open>a\<close> and an operand \<open>b\<close> in \<open>[min, max]\<close> whose exact
  result lies in \<open>[min, max]\<close>, the operation returns exactly that result: for \<open>+\<close> and
  \<open>-\<close> always; for \<open>*\<close> when \<open>a \<noteq> -1\<close> or the arithmetic is done in a type wider than
  \<open>I\<close>; for \<open>/\<close> when \<open>b \<noteq> 0\<close> and not (\<open>a = -1\<close> and \<open>b = min\<close>); for \<open>%\<close> when \<open>b \<noteq> 0\<close> and
  either not (\<open>a = min\<close> and \<open>b = -1\<close>) or the arithmetic is done in a type wider than \<open>I\<close>.
  Quotient and remainder are the truncating ones. The compound assignment stores the
  result; the binary operator returns it and leaves the receiver as it was.
\<close>

theorem exact_result:
  assumes "well_formed T" and "in_range T (val s)" and "in_range T rhs"
  shows "(in_range T (val s + rhs) \<longrightarrow>
            op_add_assign T s rhs = Returns \<lparr>val = val s + rhs\<rparr> \<lparr>val = val s + rhs\<rparr>
          \<and> op_add T s rhs = Returns \<lparr>val = val s + rhs\<rparr> s)
       \<and> (in_range T (val s - rhs) \<longrightarrow>
            op_sub_assign T s rhs = Returns \<lparr>val = val s - rhs\<rparr> \<lparr>val = val s - rhs\<rparr>
          \<and> op_sub T s rhs = Returns \<lparr>val = val s - rhs\<rparr> s)
       \<and> (in_range T (val s * rhs) \<and> (val s \<noteq> - 1 \<or> bits T < arith_bits T) \<longrightarrow>
            op_mul_assign T s rhs = Returns \<lparr>val = val s * rhs\<rparr> \<lparr>val = val s * rhs\<rparr>
          \<and> op_mul T s rhs = Returns \<lparr>val = val s * rhs\<rparr> s)
       \<and> (rhs \<noteq> 0 \<and> in_range T (val s sdiv rhs) \<and> \<not> (val s = - 1 \<and> rhs = min_I T) \<longrightarrow>
            op_div_assign T s rhs = Returns \<lparr>val = val s sdiv rhs\<rparr> \<lparr>val = val s sdiv rhs\<rparr>
          \<and> op_div T s rhs = Returns \<lparr>val = val s sdiv rhs\<rparr> s)
       \<and> (rhs \<noteq> 0 \<and> in_range T (val s smod rhs)
            \<and> (\<not> (val s = min_I T \<and> rhs = - 1) \<or> bits T < arith_bits T) \<longrightarrow>
            op_mod_assign T s rhs = Returns \<lparr>val = val s smod rhs\<rparr> \<lparr>val = val s smod rhs\<rparr>
          \<and> op_mod T s rhs = Returns \<lparr>val = val s smod rhs\<rparr> s)"
proof -
  have m: "1 \<le> max_I T" by (rule max_I_ge1 [OF assms(1)])
  have add: "op_add_assign T s rhs = Returns \<lparr>val = val s + rhs\<rparr> \<lparr>val = val s + rhs\<rparr>"
    if "in_range T (val s + rhs)"
  proof -
    from that have "\<not> (rhs > 0 \<and> val s > max_I T - rhs)" "\<not> (rhs < 0 \<and> val s < min_I T - rhs)"
      unfolding in_range_def by linarith+
    then show ?thesis unfolding add_assign_cases [OF assms] by simp
  qed
  have sub: "op_sub_assign T s rhs = Returns \<lparr>val = val s - rhs\<rparr> \<lparr>val = val s - rhs\<rparr>"
    if "in_range T (val s - rhs)"
  proof -
    from that assms(2) have "\<not> (val s \<ge> 0 \<and> rhs < - max_I T)"
      "\<not> (rhs < 0 \<and> val s > max_I T + rhs)" "\<not> (rhs > 0 \<and> val s < min_I T + rhs)"
      unfolding in_range_def by linarith+
    then show ?thesis unfolding sub_assign_cases [OF assms] by simp
  qed
  have mul: "op_mul_assign T s rhs = Returns \<lparr>val = val s * rhs\<rparr> \<lparr>val = val s * rhs\<rparr>"
    if "in_range T (val s * rhs)" "val s \<noteq> - 1 \<or> bits T < arith_bits T"
    using assms that by (rule mul_fits_no_throw)
  have div: "op_div_assign T s rhs = Returns \<lparr>val = val s sdiv rhs\<rparr> \<lparr>val = val s sdiv rhs\<rparr>"
    if "rhs \<noteq> 0" "in_range T (val s sdiv rhs)" "\<not> (val s = - 1 \<and> rhs = min_I T)"
  proof -
    have "\<not> (val s = min_I T \<and> rhs = - 1)"
    proof
      assume "val s = min_I T \<and> rhs = - 1"
      then have "val s sdiv rhs = - min_I T" by simp
      with that(2) show False using max_min [of T] by (simp add: in_range_def)
    qed
    with that(3) assms(2,3) m
    have "\<not> ((val s < - max_I T \<or> rhs < - max_I T) \<and> (val s = - 1 \<or> rhs = - 1))"
      using max_min [of T] unfolding in_range_def by auto
    with that(1) show ?thesis unfolding div_assign_cases [OF assms] by simp
  qed
  have mod: "op_mod_assign T s rhs = Returns \<lparr>val = val s smod rhs\<rparr> \<lparr>val = val s smod rhs\<rparr>"
    if "rhs \<noteq> 0" "\<not> (val s = min_I T \<and> rhs = - 1) \<or> bits T < arith_bits T"
    using that unfolding mod_assign_cases [OF assms] by auto
  show ?thesis
    using add sub mul div mod
    by (simp add: op_add_eq op_sub_eq op_mul_eq op_div_eq op_mod_eq)
qed

theorem exact_result_witness:
  "well_formed int8
   \<and> op_add int8 \<lparr>val = 100\<rparr> 27 = Returns \<lparr>val = 127\<rparr> \<lparr>val = 100\<rparr>
   \<and> op_sub_assign int8 \<lparr>val = - 100\<rparr> 28 = Returns \<lparr>val = - 128\<rparr> \<lparr>val = - 128\<rparr>
   \<and> op_mul_assign int8 \<lparr>val = - 64\<rparr> 2 = Returns \<lparr>val = - 128\<rparr> \<lparr>val = - 128\<rparr>
   \<and> op_div_assign int8 \<lparr>val = - 7\<rparr> 2 = Returns \<lparr>val = - 3\<rparr> \<lparr>val = - 3\<rparr>
   \<and> op_mod_assign int8 \<lparr>val = - 7\<rparr> 2 = Returns \<lparr>val = - 1\<rparr> \<lparr>val = - 1\<rparr>"
proof -
  have wf: "well_formed int8" by (simp add: int8_simps)
  have r: "in_range int8 (val \<lparr>val = 100\<rparr>)" "in_range int8 27"
    "in_range int8 (val \<lparr>val = - 100\<rparr>)" "in_range int8 28"
    "in_range int8 (val \<lparr>val = - 64\<rparr>)" "in_range int8 2"
    "in_range int8 (val \<lparr>val = - 7\<rparr>)"
    by (simp_all add: int8_simps)
  have h1: "in_range int8 (val \<lparr>val = 100\<rparr> + 27)" by (simp add: int8_simps)
  have h2: "in_range int8 (val \<lparr>val = - 100\<rparr> - 28)" by (simp add: int8_simps)
  have h3: "in_range int8 (val \<lparr>val = - 64\<rparr> * 2)" "val \<lparr>val = - 64\<rparr> \<noteq> - 1"
    by (simp_all add: int8_simps)
  have q: "val \<lparr>val = - 7\<rparr> sdiv 2 = - 3" "val \<lparr>val = - 7\<rparr> smod 2 = - 1"
    by (simp_all add: signed_divide_int_def signed_modulo_int_def)
  have h4: "(2::int) \<noteq> 0" "in_range int8 (val \<lparr>val = - 7\<rparr> sdiv 2)"
    "\<not> (val \<lparr>val = - 7\<rparr> = - 1 \<and> 2 = min_I int8)"
    unfolding q by (simp_all add: int8_simps)
  have h5: "in_range int8 (val \<lparr>val = - 7\<rparr> smod 2)"
    "\<not> (val \<lparr>val = - 7\<rparr> = min_I int8 \<and> (2::int) = - 1)"
    unfolding q by (simp_all add: int8_simps)
  have "op_add int8 \<lparr>val = 100\<rparr> 27 = Returns \<lparr>val = val \<lparr>val = 100\<rparr> + 27\<rparr> \<lparr>val = 100\<rparr>"
    using exact_result [OF wf r(1,2)] h1 by blast
  moreover have "op_sub_assign int8 \<lparr>val = - 100\<rparr> 28
      = Returns \<lparr>val = val \<lparr>val = - 100\<rparr> - 28\<rparr> \<lparr>val = val \<lparr>val = - 100\<rparr> - 28\<rparr>"
    using exact_result [OF wf r(3,4)] h2 by blast
  moreover have "op_mul_assign int8 \<lparr>val = - 64\<rparr> 2
      = Returns \<lparr>val = val \<lparr>val = - 64\<rparr> * 2\<rparr> \<lparr>val = val \<lparr>val = - 64\<rparr> * 2\<rparr>"
    using exact_result [OF wf r(5,6)] h3 by blast
  moreover have "op_div_assign int8 \<lparr>val = - 7\<rparr> 2
      = Returns \<lparr>val = val \<lparr>val = - 7\<rparr> sdiv 2\<rparr> \<lparr>val = val \<lparr>val = - 7\<rparr> sdiv 2\<rparr>"
    using exact_result [OF wf r(7,6)] h4 by blast
  moreover have "op_mod_assign int8 \<lparr>val = - 7\<rparr> 2
      = Returns \<lparr>val = val \<lparr>val = - 7\<rparr> smod 2\<rparr> \<lparr>val = val \<lparr>val = - 7\<rparr> smod 2\<rparr>"
    using exact_result [OF wf r(7,6)] h4(1) h5 by blast
  ultimately show ?thesis unfolding q using wf by simp
qed

text \<open>
  C2 as stated fails: \<open>-1 / min\<close> has the exact quotient 0, and \<open>/=\<close> throws \<open>Underflow\<close>;
  with \<open>I = int\<close>, \<open>-1 * 5\<close> evaluates \<open>min / -1\<close>, which overflows \<open>int\<close>.
\<close>

theorem exact_result_counterexample:
  "in_range int8 (val \<lparr>val = - 1\<rparr>) \<and> in_range int8 (- 128) \<and> (- 128 :: int) \<noteq> 0
   \<and> in_range int8 (val \<lparr>val = - 1\<rparr> sdiv (- 128))
   \<and> op_div_assign int8 \<lparr>val = - 1\<rparr> (- 128) = Throws Underflow \<lparr>val = - 1\<rparr>
   \<and> op_div int8 \<lparr>val = - 1\<rparr> (- 128) = Throws Underflow \<lparr>val = - 1\<rparr>
   \<and> in_range int32 (val \<lparr>val = - 1\<rparr>) \<and> in_range int32 5
   \<and> in_range int32 (val \<lparr>val = - 1\<rparr> * 5)
   \<and> op_mul_assign int32 \<lparr>val = - 1\<rparr> 5 = Undefined"
proof -
  have "op_div_assign int8 \<lparr>val = - 1\<rparr> (- 128) = Throws Underflow \<lparr>val = - 1\<rparr>"
    by (simp add: op_div_assign_def int8_simps)
  moreover have "op_mul_assign int32 \<lparr>val = - 1\<rparr> 5 = Undefined"
    by (simp add: op_mul_assign_def arith_div_def arith_def arith_ok_def int32_simps)
       (simp add: int32_def)
  ultimately show ?thesis
    by (simp add: op_div_eq int8_simps int32_simps signed_divide_int_def)
qed

section \<open>Increment and decrement\<close>

lemma inc_dec_cases:
  assumes "well_formed T" and "in_range T (val s)"
  shows "op_pre_inc T s =
           (if val s = max_I T then Throws Overflow s
            else Returns (s\<lparr>val := val s + 1\<rparr>) (s\<lparr>val := val s + 1\<rparr>))"
    and "op_pre_dec T s =
           (if val s = min_I T then Throws Underflow s
            else Returns (s\<lparr>val := val s - 1\<rparr>) (s\<lparr>val := val s - 1\<rparr>))"
    and "op_post_inc T s =
           (if val s = max_I T then Throws Overflow s
            else Returns s (s\<lparr>val := val s + 1\<rparr>))"
    and "op_post_dec T s =
           (if val s = min_I T then Throws Underflow s
            else Returns s (s\<lparr>val := val s - 1\<rparr>))"
proof -
  have up: "in_range T (val s + 1)" if "val s \<noteq> max_I T"
    using that assms(2) unfolding in_range_def by linarith
  have down: "in_range T (val s - 1)" if "val s \<noteq> min_I T"
    using that assms(2) unfolding in_range_def by linarith
  show "op_pre_inc T s =
           (if val s = max_I T then Throws Overflow s
            else Returns (s\<lparr>val := val s + 1\<rparr>) (s\<lparr>val := val s + 1\<rparr>))"
    using assms(1) up by (simp add: op_pre_inc_def store_exact)
  show "op_pre_dec T s =
           (if val s = min_I T then Throws Underflow s
            else Returns (s\<lparr>val := val s - 1\<rparr>) (s\<lparr>val := val s - 1\<rparr>))"
    using assms(1) down by (simp add: op_pre_dec_def store_exact)
  show "op_post_inc T s =
           (if val s = max_I T then Throws Overflow s
            else Returns s (s\<lparr>val := val s + 1\<rparr>))"
    using assms(1) up
    by (simp add: op_post_inc_def arith_def in_range_arith_ok to_I_id copy_eq)
  show "op_post_dec T s =
           (if val s = min_I T then Throws Underflow s
            else Returns s (s\<lparr>val := val s - 1\<rparr>))"
    using assms(1) down
    by (simp add: op_post_dec_def arith_def in_range_arith_ok to_I_id copy_eq)
qed

section \<open>A failing operation leaves the receiver as it was\<close>

text \<open>
  C6. Whenever unary negation, a pre- or post-increment or -decrement, or a compound
  assignment (with a scalar or a \<open>safe_int\<close> right-hand side) throws, the receiver holds
  afterwards the value it held before: every \<open>throw\<close> precedes the write to \<open>val\<close>.
\<close>

theorem failure_atomicity:
  "(unary T u s = Throws e t \<longrightarrow> t = s)
   \<and> (compound T b s rhs = Throws e t \<longrightarrow> t = s)
   \<and> (compound_si T b s r = Throws e t \<longrightarrow> t = s)"
proof -
  have st: "store T s x = Throws e t \<longrightarrow> t = s" for x
    by (simp add: store_not_throws)
  have u: "unary T u s = Throws e t \<longrightarrow> t = s"
    by (cases u)
       (auto simp: op_neg_def op_pre_inc_def op_pre_dec_def op_post_inc_def op_post_dec_def
          store_not_throws split: if_splits option.splits)
  have c: "compound T b s x = Throws e t \<longrightarrow> t = s" for x
    by (cases b)
       (auto simp: op_add_assign_def op_sub_assign_def op_mul_assign_def op_div_assign_def
          op_mod_assign_def store_not_throws split: if_splits option.splits)
  have "compound_si T b s r = compound T b s (value_of r)"
    by (cases b)
       (simp_all add: op_add_assign_si_def op_sub_assign_si_def op_mul_assign_si_def
          op_div_assign_si_def op_mod_assign_si_def)
  with u c show ?thesis by simp
qed

theorem failure_atomicity_witness:
  "unary int8 PreInc \<lparr>val = 127\<rparr> = Throws Overflow \<lparr>val = 127\<rparr>
   \<and> compound int8 Div \<lparr>val = 5\<rparr> 0 = Throws DomainError \<lparr>val = 5\<rparr>
   \<and> compound_si int8 Add \<lparr>val = 100\<rparr> \<lparr>val = 28\<rparr> = Throws Overflow \<lparr>val = 100\<rparr>"
proof -
  have "\<exists>t. unary int8 PreInc \<lparr>val = 127\<rparr> = Throws Overflow t"
    by (simp add: op_pre_inc_def int8_simps)
  moreover have "\<exists>t. compound int8 Div \<lparr>val = 5\<rparr> 0 = Throws DomainError t"
    by (simp add: op_div_assign_def int8_simps)
  moreover have "\<exists>t. compound_si int8 Add \<lparr>val = 100\<rparr> \<lparr>val = 28\<rparr> = Throws Overflow t"
    by (simp add: op_add_assign_si_def op_add_assign_def value_of_def int8_simps)
  ultimately show ?thesis
    using failure_atomicity [of int8 PreInc "\<lparr>val = 127\<rparr>" Overflow]
      failure_atomicity [where T = int8 and b = Div and s = "\<lparr>val = 5\<rparr>" and rhs = 0 and e = DomainError]
      failure_atomicity [where T = int8 and b = Add and s = "\<lparr>val = 100\<rparr>" and r = "\<lparr>val = 28\<rparr>"
        and e = Overflow]
    by blast
qed

section \<open>Binary operators and their compound assignments\<close>

lemma compound_returns_receiver:
  "compound T b s rhs = Returns r t \<Longrightarrow> r = t"
  by (cases b)
     (auto simp: op_add_assign_def op_sub_assign_def op_mul_assign_def op_div_assign_def
        op_mod_assign_def store_def split: if_splits option.splits)

lemma binary_on_copy:
  "binary T b s rhs = on_copy s (\<lambda>t. compound T b t rhs)"
  by (cases b) (simp_all add: op_add_def op_sub_def op_mul_def op_div_def op_mod_def)

lemma binary_si_scalar:
  "binary_si T b s r = binary T b s (value_of r)"
  "compound_si T b s r = compound T b s (value_of r)"
  by (cases b; simp add: op_add_si_def op_sub_si_def op_mul_si_def op_div_si_def op_mod_si_def
        op_add_def op_sub_def op_mul_def op_div_def op_mod_def
        op_add_assign_si_def op_sub_assign_si_def op_mul_assign_si_def
        op_div_assign_si_def op_mod_assign_si_def)+

text \<open>
  C7. For every operator \<open>b\<close> of \<open>+ - * / %\<close> and every right-hand side, scalar or
  \<open>safe_int\<close>: the binary operator throws \<open>e\<close> exactly when the compound assignment
  applied to a copy of the receiver throws \<open>e\<close>; it returns \<open>x\<close> exactly when the compound
  assignment on the copy returns, and stores, \<open>x\<close>; in both cases the receiver is unchanged.
\<close>

theorem binary_as_compound:
  "(binary T b s rhs = Throws e t \<longleftrightarrow>
      t = s \<and> (\<exists>t'. compound T b (safe_int_ctor (val s)) rhs = Throws e t'))
   \<and> (binary T b s rhs = Returns x t \<longleftrightarrow>
      t = s \<and> compound T b (safe_int_ctor (val s)) rhs = Returns x x)
   \<and> (binary_si T b s r = Throws e t \<longleftrightarrow>
      t = s \<and> (\<exists>t'. compound_si T b (safe_int_ctor (val s)) r = Throws e t'))
   \<and> (binary_si T b s r = Returns x t \<longleftrightarrow>
      t = s \<and> compound_si T b (safe_int_ctor (val s)) r = Returns x x)"
proof -
  have th: "binary T b s y = Throws e t \<longleftrightarrow>
      t = s \<and> (\<exists>t'. compound T b (safe_int_ctor (val s)) y = Throws e t')" for y
    unfolding binary_on_copy on_copy_def by (auto split: outcome.splits)
  have re: "binary T b s y = Returns x t \<longleftrightarrow>
      t = s \<and> compound T b (safe_int_ctor (val s)) y = Returns x x" for y
    unfolding binary_on_copy on_copy_def
    by (auto split: outcome.splits dest: compound_returns_receiver)
  show ?thesis unfolding binary_si_scalar using th re by simp
qed

theorem binary_as_compound_witness:
  "binary int8 Add \<lparr>val = 100\<rparr> 28 = Throws Overflow \<lparr>val = 100\<rparr>
   \<and> binary_si int8 Div \<lparr>val = - 7\<rparr> \<lparr>val = 2\<rparr> = Returns \<lparr>val = - 3\<rparr> \<lparr>val = - 7\<rparr>"
proof -
  have "compound int8 Add (safe_int_ctor (val \<lparr>val = 100\<rparr>)) 28 = Throws Overflow \<lparr>val = 100\<rparr>"
    by (simp add: op_add_assign_def safe_int_ctor_def int8_simps)
  moreover have "compound_si int8 Div (safe_int_ctor (val \<lparr>val = - 7\<rparr>)) \<lparr>val = 2\<rparr>
      = Returns \<lparr>val = - 3\<rparr> \<lparr>val = - 3\<rparr>"
    by (simp add: op_div_assign_si_def op_div_assign_def value_of_def safe_int_ctor_def
        arith_div_def arith_def arith_ok_def store_def to_I_def signed_divide_int_def
        max_I_def min_I_def int8_def)
  ultimately show ?thesis
    using binary_as_compound [where T = int8 and b = Add and s = "\<lparr>val = 100\<rparr>" and rhs = 28
        and e = Overflow and t = "\<lparr>val = 100\<rparr>"]
      binary_as_compound [where T = int8 and b = Div and s = "\<lparr>val = - 7\<rparr>" and r = "\<lparr>val = 2\<rparr>"
        and x = "\<lparr>val = - 3\<rparr>" and t = "\<lparr>val = - 7\<rparr>"]
    by blast
qed

section \<open>Construction from another integer type\<close>

text \<open>
  C5, as amended. Constructing a \<open>safe_int\<close> from a value of another integer type never
  fails: no \<open>Overflow\<close> and no \<open>Underflow\<close> is thrown for any source value. When the
  source value lies within \<open>[min, max]\<close> of the target type, that value is stored.
\<close>

theorem construct_unchecked:
  "safe_int_from T n \<noteq> Inl e
   \<and> (well_formed T \<and> in_range T n \<longrightarrow> safe_int_from T n = Inr \<lparr>val = n\<rparr>)"
  by (simp add: safe_int_from_def safe_int_ctor_def to_I_id)

theorem construct_unchecked_witness:
  "well_formed int8 \<and> in_range int8 127 \<and> in_range int8 (- 128)
   \<and> safe_int_from int8 127 = Inr \<lparr>val = 127\<rparr>
   \<and> safe_int_from int8 (- 128) = Inr \<lparr>val = - 128\<rparr>"
proof -
  have h: "well_formed int8" "in_range int8 127" "in_range int8 (- 128)"
    by (simp_all add: int8_simps)
  have "safe_int_from int8 127 = Inr \<lparr>val = 127\<rparr>"
    using construct_unchecked [where T = int8 and n = 127] h(1,2) by blast
  moreover have "safe_int_from int8 (- 128) = Inr \<lparr>val = - 128\<rparr>"
    using construct_unchecked [where T = int8 and n = "- 128"] h(1,3) by blast
  ultimately show ?thesis using h by simp
qed

text \<open>
  C5 as stated fails: with an 8-bit \<open>I\<close>, construction from 200, above \<open>max\<close>, and from
  \<open>-200\<close>, below \<open>min\<close>, both return an object instead of throwing.
\<close>

theorem construct_counterexample:
  "\<not> in_range int8 200 \<and> max_I int8 < 200
   \<and> safe_int_from int8 200 = Inr \<lparr>val = - 56\<rparr>
   \<and> \<not> in_range int8 (- 200) \<and> - 200 < min_I int8
   \<and> safe_int_from int8 (- 200) = Inr \<lparr>val = 56\<rparr>"
  by (simp add: safe_int_from_def safe_int_ctor_def int8_simps to_I_def) (simp add: int8_def)

section \<open>Operand pairs the tests let through\<close>

text \<open>
  What \<open>val = e\<close> stores is always a value of \<open>I\<close>: outside \<open>[min, max]\<close>, the value of \<open>e\<close>
  is reduced modulo \<open>2 ^ bits\<close>.
\<close>

lemma stored_in_range:
  assumes "well_formed T"
  shows "in_range T (to_I T x)"
proof -
  from assms have "bits T = Suc (bits T - 1)" by (simp add: well_formed_def)
  then have p: "(2::int) ^ bits T = 2 * 2 ^ (bits T - 1)"
    by (metis power_Suc)
  have "0 \<le> (x + 2 ^ (bits T - 1)) mod 2 ^ bits T"
    and "(x + 2 ^ (bits T - 1)) mod 2 ^ bits T < 2 ^ bits T"
    by simp_all
  then show ?thesis unfolding in_range_def to_I_def max_I_def min_I_def p by linarith
qed

text \<open>
  C4 at \<open>min % -1\<close> with \<open>I = int\<close>: the operands are in range, the divisor is not zero and
  the remainder 0 is in range, but \<open>%=\<close> evaluates \<open>val % rhs\<close> with no test other than
  \<open>rhs == 0\<close>, and the quotient \<open>min / -1\<close> is not representable in \<open>int\<close>: the behaviour is
  undefined, where \<open>/=\<close> on the same operands throws.
\<close>

theorem mod_min_by_minus_one:
  "in_range int32 (val \<lparr>val = - 2147483648\<rparr>) \<and> in_range int32 (- 1)
   \<and> in_range int32 (val \<lparr>val = - 2147483648\<rparr> smod (- 1))
   \<and> op_mod_assign int32 \<lparr>val = - 2147483648\<rparr> (- 1) = Undefined
   \<and> op_mod int32 \<lparr>val = - 2147483648\<rparr> (- 1) = Undefined"
proof -
  have "op_mod_assign int32 \<lparr>val = - 2147483648\<rparr> (- 1) = Undefined"
    by (simp add: op_mod_assign_def arith_mod_def arith_ok_def store_def int32_def)
  then show ?thesis
    by (simp add: op_mod_eq int32_simps signed_modulo_int_def)
qed

text \<open>
  C1 at \<open>16 * -16\<close> and \<open>-2 * -100\<close> with an 8-bit \<open>I\<close>: the operands are in range, the
  products \<open>-256\<close> and \<open>200\<close> are not, no test of \<open>*=\<close> fires, and the call returns with
  the wrapped values 0 and \<open>-56\<close> stored.
\<close>

theorem mul_stores_wrapped:
  "in_range int8 (val \<lparr>val = 16\<rparr>) \<and> in_range int8 (- 16)
   \<and> \<not> in_range int8 (val \<lparr>val = 16\<rparr> * (- 16))
   \<and> op_mul_assign int8 \<lparr>val = 16\<rparr> (- 16) = Returns \<lparr>val = 0\<rparr> \<lparr>val = 0\<rparr>
   \<and> in_range int8 (val \<lparr>val = - 2\<rparr>) \<and> in_range int8 (- 100)
   \<and> \<not> in_range int8 (val \<lparr>val = - 2\<rparr> * (- 100))
   \<and> op_mul_assign int8 \<lparr>val = - 2\<rparr> (- 100) = Returns \<lparr>val = - 56\<rparr> \<lparr>val = - 56\<rparr>"
proof -
  have "op_mul_assign int8 \<lparr>val = 16\<rparr> (- 16) = Returns \<lparr>val = 0\<rparr> \<lparr>val = 0\<rparr>"
    by (simp add: op_mul_assign_def arith_div_def arith_def arith_ok_def store_def to_I_def
        max_I_def min_I_def int8_def signed_divide_int_def)
  moreover
  have "op_mul_assign int8 \<lparr>val = - 2\<rparr> (- 100) = Returns \<lparr>val = - 56\<rparr> \<lparr>val = - 56\<rparr>"
    by (simp add: op_mul_assign_def arith_div_def arith_def arith_ok_def store_def to_I_def
        max_I_def min_I_def int8_def signed_divide_int_def)
  ultimately show ?thesis by (simp add: int8_simps)
qed

end
